theory Spec2Isabelle
  imports Main "HOL-Library.Sublist"
begin

section \<open>Python values and failures\<close>

text \<open>
  The shim is Python 3 code. A path argument can be any Python object, so arguments are
  values of \<open>pyobj\<close>: text (\<open>str\<close>), a byte string (\<open>bytes\<close>), or something else
  (an integer, \<open>None\<close>, a type object, or any other object, of which only the name of its
  type and its printed form matter here). A \<open>str\<close> is modelled as an Isabelle string and
  a \<open>bytes\<close> value as a list of 8-bit characters.
\<close>

type_synonym bytes = string

datatype pyobj =
    PyStr string
  | PyBytes bytes
  | PyInt int
  | PyNone
  | PyType string
  | PyOther string string

text \<open>\<open>type(v)\<close>; \<open>PyOther ty txt\<close> is an object of the type named \<open>ty\<close>.\<close>

fun py_type :: "pyobj \<Rightarrow> pyobj" where
  "py_type (PyStr _) = PyType ''str''"
| "py_type (PyBytes _) = PyType ''bytes''"
| "py_type (PyInt _) = PyType ''int''"
| "py_type PyNone = PyType ''NoneType''"
| "py_type (PyType _) = PyType ''type''"
| "py_type (PyOther ty _) = PyType ty"

text \<open>
  A message built with the \<open>%\<close> operator is kept as the format string together with
  the tuple of values it is applied to. Exceptions are values; \<open>KeyError\<close> carries the key
  that was looked up.
\<close>

type_synonym pymsg = "string \<times> pyobj list"

datatype pyerr =
    TypeError pymsg
  | ValueError pymsg
  | OSError int pymsg
  | KeyError pyobj
  | IndexError
  | UnicodeDecodeError

definition ENOENT :: int where "ENOENT = 2"
definition EEXIST :: int where "EEXIST = 17"

section \<open>Strings\<close>

abbreviation bs :: char where "bs \<equiv> CHR 0x5C"

definition startswith :: "string \<Rightarrow> string \<Rightarrow> bool" where
  "startswith s p = prefix p s"

definition endswith :: "string \<Rightarrow> string \<Rightarrow> bool" where
  "endswith s p = suffix p s"

text \<open>
  \<open>str.upper\<close>. Only two comparisons depend on it, the one with the reserved device
  names and the one with the extended UNC marker in the library's \<open>splitdrive\<close>. Both
  compare with ASCII capitals, digits, the question mark and the backslash, and no character
  outside ASCII has an upper case made of such characters only, so the ASCII case mapping
  decides these comparisons exactly as Python's full mapping does.
\<close>

definition upper_char :: "char \<Rightarrow> char" where
  "upper_char c =
     (case map_of (zip ''abcdefghijklmnopqrstuvwxyz'' ''ABCDEFGHIJKLMNOPQRSTUVWXYZ'') c of
        Some u \<Rightarrow> u
      | None \<Rightarrow> c)"

definition py_upper :: "string \<Rightarrow> string" where
  "py_upper s = map upper_char s"

text \<open>
  \<open>str.lower\<close> on the characters of the model, the code points below 256: the ASCII
  capitals and the capitals of Latin-1 have a lower case, every other character is its own.
\<close>

definition lower_char :: "char \<Rightarrow> char" where
  "lower_char c =
     (case map_of
        (zip (''ABCDEFGHIJKLMNOPQRSTUVWXYZ'' @
              [CHR 0xC0, CHR 0xC1, CHR 0xC2, CHR 0xC3, CHR 0xC4, CHR 0xC5,
               CHR 0xC6, CHR 0xC7, CHR 0xC8, CHR 0xC9, CHR 0xCA, CHR 0xCB,
               CHR 0xCC, CHR 0xCD, CHR 0xCE, CHR 0xCF, CHR 0xD0, CHR 0xD1,
               CHR 0xD2, CHR 0xD3, CHR 0xD4, CHR 0xD5, CHR 0xD6, CHR 0xD8,
               CHR 0xD9, CHR 0xDA, CHR 0xDB, CHR 0xDC, CHR 0xDD, CHR 0xDE])
             (''abcdefghijklmnopqrstuvwxyz'' @
              [CHR 0xE0, CHR 0xE1, CHR 0xE2, CHR 0xE3, CHR 0xE4, CHR 0xE5,
               CHR 0xE6, CHR 0xE7, CHR 0xE8, CHR 0xE9, CHR 0xEA, CHR 0xEB,
               CHR 0xEC, CHR 0xED, CHR 0xEE, CHR 0xEF, CHR 0xF0, CHR 0xF1,
               CHR 0xF2, CHR 0xF3, CHR 0xF4, CHR 0xF5, CHR 0xF6, CHR 0xF8,
               CHR 0xF9, CHR 0xFA, CHR 0xFB, CHR 0xFC, CHR 0xFD, CHR 0xFE])) c of
        Some l \<Rightarrow> l
      | None \<Rightarrow> c)"

definition py_lower :: "string \<Rightarrow> string" where
  "py_lower s = map lower_char s"

text \<open>
  \<open>s.find(c, start)\<close> for a single character \<open>c\<close>: the lowest index from \<open>start\<close> on
  at which \<open>c\<close> stands, and \<open>None\<close> where Python returns \<open>-1\<close>.
\<close>

definition py_find :: "string \<Rightarrow> char \<Rightarrow> nat \<Rightarrow> nat option" where
  "py_find s c start =
     (if c \<in> set (drop start s)
      then Some (start + length (takeWhile (\<lambda>x. x \<noteq> c) (drop start s)))
      else None)"

section \<open>Module constants\<close>

definition uncprefix :: string where
  "uncprefix = [bs, bs, CHR ''?'', bs]"

definition deviceprefix :: string where
  "deviceprefix = [bs, bs, CHR ''.'', bs]"

definition WINDOWS_RESERVED_NAMES :: "string set" where
  "WINDOWS_RESERVED_NAMES =
     {''CON'', ''PRN'', ''AUX'', ''NUL'', ''COM1'', ''COM2'', ''COM3'', ''COM4'', ''COM5'',
      ''COM6'', ''COM7'', ''COM8'', ''COM9'', ''LPT1'', ''LPT2'', ''LPT3'', ''LPT4'',
      ''LPT5'', ''LPT6'', ''LPT7'', ''LPT8'', ''LPT9''}"

definition maxdirpath :: nat where "maxdirpath = 248"

definition INVALID_HANDLE_VALUE :: int where "INVALID_HANDLE_VALUE = - 1"

definition ERROR_FILE_NOT_FOUND :: int where "ERROR_FILE_NOT_FOUND = 0x2"
definition ERROR_PATH_NOT_FOUND :: int where "ERROR_PATH_NOT_FOUND = 0x3"
definition ERROR_ALREADY_EXISTS :: int where "ERROR_ALREADY_EXISTS = 0xB7"

text \<open>The dictionary \<open>_errmap\<close>: two entries.\<close>

definition errmap :: "int \<rightharpoonup> int" where
  "errmap = map_of [(ERROR_PATH_NOT_FOUND, ENOENT), (ERROR_ALREADY_EXISTS, EEXIST)]"

section \<open>The platform\<close>

text \<open>
  The shim calls into the Python library, into Mercurial and into the Windows API. Those
  calls are parameters of the model: a record of functions over an arbitrary type \<open>'os\<close>
  of operating system states (working directory, file system, open find handles, last
  error code). A call that can change the system returns the new state. The find data
  buffer \<open>WIN32_FIND_DATAA\<close> is the ANSI structure: its \<open>cFileName\<close> is a character
  array, which Python reads as a \<open>bytes\<close> value, and a fresh buffer is zero-filled.

  \<open>gettext\<close> is Mercurial's translation function, which the module imports under the
  name \<open>_\<close>. Applied to a \<open>str\<close> message, Mercurial on Python 3 returns the translation
  encoded in the local encoding, a \<open>bytes\<close> value; only when the environment asks for
  plain output (\<open>HGPLAIN\<close>) is \<open>_\<close> the identity, and the result the \<open>str\<close> message
  itself.
\<close>

record find_data =
  cFileName :: bytes

definition WIN32_FIND_DATAA :: find_data where
  "WIN32_FIND_DATAA = \<lparr>cFileName = []\<rparr>"

record 'os natives =
  utf8_decode :: "bytes \<Rightarrow> string option"
  utf8_encode :: "string \<Rightarrow> bytes"
  os_path_abspath :: "'os \<Rightarrow> string \<Rightarrow> string"
  os_path_join :: "string \<Rightarrow> string \<Rightarrow> string"
  os_path_exists :: "'os \<Rightarrow> string \<Rightarrow> bool"
  os_chdir :: "string \<Rightarrow> 'os \<Rightarrow> (pyerr + unit) \<times> 'os"
  FindFirstFile :: "string \<Rightarrow> find_data \<Rightarrow> 'os \<Rightarrow> int \<times> find_data \<times> 'os"
  FindNextFile :: "int \<Rightarrow> find_data \<Rightarrow> 'os \<Rightarrow> int \<times> find_data \<times> 'os"
  FindClose :: "int \<Rightarrow> 'os \<Rightarrow> 'os"
  GetLastError :: "'os \<Rightarrow> int"
  CreateDirectory :: "string \<Rightarrow> pyobj \<Rightarrow> 'os \<Rightarrow> int \<times> 'os"
  gettext :: "string \<Rightarrow> pyobj"

text \<open>
  The state the module itself keeps besides the operating system's: the global \<open>_cwd\<close>
  (\<open>None\<close> until a change of directory stores a path) and what was handed to \<open>ui.warn\<close>.
\<close>

record 'os world =
  os_of :: 'os
  cwd :: "string option"
  ui_warn :: "pymsg list"

text \<open>
  The operator \<open>%\<close> applied to a translated message and one \<open>str\<close> argument. The
  messages of this module hold the single conversion \<open>%s\<close>, and a translation keeps the
  conversions of its message. On a \<open>str\<close> format the argument is filled in; the result is
  kept as the format together with the argument. On a \<open>bytes\<close> format \<open>%s\<close> stands for
  \<open>%b\<close>, which takes a bytes-like object only: with a \<open>str\<close> argument the operator raises
  \<open>TypeError\<close>. A value of any other type has no operator \<open>%\<close> for a \<open>str\<close>.
\<close>

fun py_mod :: "pyobj \<Rightarrow> string \<Rightarrow> pyerr + pymsg" where
  "py_mod (PyStr fmt) arg = Inr (fmt, [PyStr arg])"
| "py_mod (PyBytes fmt) arg =
     Inl (TypeError (''%b requires a bytes-like object, or an object that implements __bytes__, not '%s'' @ [CHR 0x27],
            [PyType ''str'']))"
| "py_mod v arg =
     Inl (TypeError (''unsupported operand type(s) for %: '%s' and '%s'' @ [CHR 0x27],
            [py_type v, PyType ''str'']))"

section \<open>Path encoding\<close>

definition bytestostring :: "'os natives \<Rightarrow> pyobj \<Rightarrow> pyerr + pyobj" where
  "bytestostring sys string =
     (case string of
        PyBytes b \<Rightarrow>
          (case utf8_decode sys b of
             None \<Rightarrow> Inl UnicodeDecodeError
           | Some s \<Rightarrow> Inr (PyStr s))
      | _ \<Rightarrow> Inr string)"

definition stringtobytes :: "'os natives \<Rightarrow> pyobj \<Rightarrow> pyobj" where
  "stringtobytes sys string =
     (case string of
        PyStr s \<Rightarrow> PyBytes (utf8_encode sys s)
      | _ \<Rightarrow> string)"

definition uncabspath :: "'os natives \<Rightarrow> 'os \<Rightarrow> pyobj \<Rightarrow> pyerr + string" where
  "uncabspath sys os path0 =
     (case bytestostring sys path0 of
        Inl e \<Rightarrow> Inl e
      | Inr (PyStr path) \<Rightarrow>
          if \<not> startswith path uncprefix \<and> \<not> startswith path deviceprefix
             \<and> py_upper path \<notin> WINDOWS_RESERVED_NAMES
          then
            (let path = os_path_abspath sys os path in
             if \<not> startswith path uncprefix then
               if startswith path [bs, bs]
               then Inr (uncprefix @ ''UNC'' @ drop 1 path)
               else Inr (uncprefix @ path)
             else Inr path)
          else Inr path
      | Inr v \<Rightarrow> Inl (TypeError (''%s is not a string (%s)'', [v, py_type v])))"

section \<open>Wrappers around one-path and two-path primitives\<close>

text \<open>
  A wrapped primitive \<open>method\<close> receives its first argument, the remaining positional
  arguments and the keyword arguments, runs in the operating system's state and returns
  a result or a failure together with the new state.
\<close>

definition wrap1 ::
  "'os natives \<Rightarrow> (pyobj \<Rightarrow> pyobj list \<Rightarrow> 'kw \<Rightarrow> 'os \<Rightarrow> (pyerr + 'r) \<times> 'os)
     \<Rightarrow> pyobj list \<Rightarrow> 'kw \<Rightarrow> 'os \<Rightarrow> (pyerr + 'r) \<times> 'os" where
  "wrap1 sys method args kwargs os =
     (case args of
        [] \<Rightarrow> (Inl IndexError, os)
      | a0 # rest \<Rightarrow>
          (case uncabspath sys os a0 of
             Inl e \<Rightarrow> (Inl e, os)
           | Inr path \<Rightarrow> method (stringtobytes sys (PyStr path)) rest kwargs os))"

definition wrap2 ::
  "'os natives \<Rightarrow> (pyobj \<Rightarrow> pyobj \<Rightarrow> pyobj list \<Rightarrow> 'kw \<Rightarrow> 'os \<Rightarrow> (pyerr + 'r) \<times> 'os)
     \<Rightarrow> pyobj list \<Rightarrow> 'kw \<Rightarrow> 'os \<Rightarrow> (pyerr + 'r) \<times> 'os" where
  "wrap2 sys method args kwargs os =
     (case args of
        [] \<Rightarrow> (Inl IndexError, os)
      | a0 # rest0 \<Rightarrow>
          (case uncabspath sys os a0 of
             Inl e \<Rightarrow> (Inl e, os)
           | Inr src \<Rightarrow>
               (case rest0 of
                  [] \<Rightarrow> (Inl IndexError, os)
                | a1 # rest \<Rightarrow>
                    (case uncabspath sys os a1 of
                       Inl e \<Rightarrow> (Inl e, os)
                     | Inr dst \<Rightarrow>
                         method (stringtobytes sys (PyStr src)) (stringtobytes sys (PyStr dst))
                           rest kwargs os))))"

section \<open>Directory listing\<close>

text \<open>
  The \<open>while True\<close> loop of \<open>lfnlistdir\<close>. It ends only when \<open>FindNextFile\<close> returns 0,
  so it is a partial function: \<open>None\<close> stands for a loop that never returns.
\<close>

partial_function (option) lfnlistdir_loop ::
  "'os natives \<Rightarrow> int \<Rightarrow> find_data \<Rightarrow> 'os \<Rightarrow> pyobj list \<Rightarrow> (pyobj list \<times> 'os) option" where
  "lfnlistdir_loop sys fldr out os result =
     (let result' =
        (if \<not> PyBytes (cFileName out) = PyStr ''..'' \<and> \<not> PyBytes (cFileName out) = PyStr ''.''
         then result @ [PyBytes (cFileName out)]
         else result)
      in case FindNextFile sys fldr out os of
           (found, out', os') \<Rightarrow>
             if found = 0 then Some (result', os')
             else lfnlistdir_loop sys fldr out' os' result')"

declare lfnlistdir_loop.simps [code]

definition lfnlistdir ::
  "'os natives \<Rightarrow> pyobj \<Rightarrow> 'os \<Rightarrow> ((pyerr + pyobj list) \<times> 'os) option" where
  "lfnlistdir sys path0 os =
     (case uncabspath sys os path0 of
        Inl e \<Rightarrow> Some (Inl e, os)
      | Inr path \<Rightarrow>
          (case FindFirstFile sys (os_path_join sys path ''*'') WIN32_FIND_DATAA os of
             (fldr, out, os1) \<Rightarrow>
               if fldr = INVALID_HANDLE_VALUE
                  \<and> GetLastError sys os1 \<noteq> ERROR_PATH_NOT_FOUND
                  \<and> GetLastError sys os1 \<noteq> ERROR_FILE_NOT_FOUND
               then Some (Inl (ValueError (''invalid handle (%s, %s)! '',
                            [PyStr path, PyInt (GetLastError sys os1)])), os1)
               else
                 (case lfnlistdir_loop sys fldr out os1 [] of
                    None \<Rightarrow> None
                  | Some (result, os2) \<Rightarrow> Some (Inr result, FindClose sys fldr os2))))"

section \<open>Directory creation\<close>

definition lfnmkdir :: "'os natives \<Rightarrow> pyobj \<Rightarrow> pyobj \<Rightarrow> 'os \<Rightarrow> (pyerr + unit) \<times> 'os" where
  "lfnmkdir sys path0 mode os =
     (case uncabspath sys os path0 of
        Inl e \<Rightarrow> (Inl e, os)
      | Inr path \<Rightarrow>
          (case CreateDirectory sys path PyNone os of
             (error, os1) \<Rightarrow>
               if error = 0 then
                 (let error = GetLastError sys os1 in
                  case errmap error of
                    None \<Rightarrow> (Inl (KeyError (PyInt error)), os1)
                  | Some pyerrno \<Rightarrow> (Inl (OSError pyerrno (''Error'', [])), os1))
               else (Inr (), os1)))"

section \<open>Split at a drive root\<close>

definition addmissingbackslash :: "string \<Rightarrow> string" where
  "addmissingbackslash path = (if endswith path '':'' then path @ [bs] else path)"

text \<open>\<open>wrapsplit split\<close> returns the closure \<open>lfnsplit\<close> over the split it wraps.\<close>

definition lfnsplit :: "(string \<Rightarrow> string \<times> string) \<Rightarrow> string \<Rightarrow> string \<times> string" where
  "lfnsplit split path =
     (let result = split path in
      if endswith (fst result) '':'' then (fst result @ [bs], snd result) else result)"

definition wrapsplit :: "(string \<Rightarrow> string \<times> string) \<Rightarrow> string \<Rightarrow> string \<times> string" where
  "wrapsplit split = lfnsplit split"

section \<open>Change of directory\<close>

text \<open>
  \<open>wrapchdir ui chdir\<close> returns the closure \<open>lfnchdir\<close>; the wrapped \<open>chdir\<close> is the
  platform's. Both messages are built by applying \<open>%\<close> to what the translation function
  returns, before \<open>ui.warn\<close> is called and before the \<open>OSError\<close> is made, so a failure of
  \<open>%\<close> is the failure of \<open>lfnchdir\<close>. A failure leaves the state as it is at the moment
  of the raise.
\<close>

definition lfnchdir :: "'os natives \<Rightarrow> string \<Rightarrow> 'os world \<Rightarrow> (pyerr + unit) \<times> 'os world" where
  "lfnchdir sys path0 w =
     (let path = os_path_abspath sys (os_of w) path0 in
      case (if length path \<ge> maxdirpath
            then (case py_mod (gettext sys
                         (''warning: chdir to a long directory path (see hg help win32lfn):''
                            @ [CHR 0x0A] @ ''%s'')) path of
                    Inl e \<Rightarrow> (Inl e, w)
                  | Inr msg \<Rightarrow> (Inr (), w\<lparr>ui_warn := ui_warn w @ [msg]\<rparr>))
            else (case os_chdir sys path (os_of w) of
                    (r, os1) \<Rightarrow> (r, w\<lparr>os_of := os1\<rparr>)))
      of
        (Inl e, w1) \<Rightarrow> (Inl e, w1)
      | (Inr _, w1) \<Rightarrow>
          (case uncabspath sys (os_of w1) (PyStr path) of
             Inl e \<Rightarrow> (Inl e, w1)
           | Inr path' \<Rightarrow>
               if os_path_exists sys (os_of w1) path'
               then (Inr (), w1\<lparr>cwd := Some path'\<rparr>)
               else (case py_mod (gettext sys ''Directory doesn't exist: %s'') path' of
                       Inl e \<Rightarrow> (Inl e, w1)
                     | Inr msg \<Rightarrow> (Inl (OSError ENOENT msg), w1))))"

text \<open>A failure is of the not-found kind when it is an \<open>OSError\<close> whose code is \<open>ENOENT\<close>.\<close>

definition is_ENOENT :: "pyerr \<Rightarrow> bool" where
  "is_ENOENT e = (case e of OSError n _ \<Rightarrow> n = ENOENT | _ \<Rightarrow> False)"

section \<open>The library's split and join\<close>

text \<open>
  \<open>os.path.split\<close> and \<open>os.path.join\<close> belong to the Python library, not to the
  repository; on Windows they are \<open>ntpath.split\<close> and \<open>ntpath.join\<close>. The module is
  Python 3 code, so they are translated here from \<open>ntpath\<close> of Python 3 (release 3.11),
  for \<open>str\<close> arguments, together with \<open>ntpath.splitdrive\<close>, on which both rest.
  \<open>nt_join\<close> is \<open>join\<close> for one path after the first.
\<close>

definition seps :: "char set" where
  "seps = {bs, CHR ''/''}"

definition nt_splitdrive :: "string \<Rightarrow> string \<times> string" where
  "nt_splitdrive p =
     (if length p \<ge> 2 then
        (let normp = map (\<lambda>c. if c = CHR ''/'' then bs else c) p in
         if take 2 normp = [bs, bs] then
           (let start = (if py_upper (take 8 normp) = uncprefix @ ''UNC'' @ [bs] then 8 else 2)
            in case py_find normp bs start of
                 None \<Rightarrow> (p, [])
               | Some index \<Rightarrow>
                   (case py_find normp bs (index + 1) of
                      None \<Rightarrow> (p, [])
                    | Some index2 \<Rightarrow> (take index2 p, drop index2 p)))
         else if take 1 (drop 1 normp) = '':'' then (take 2 p, drop 2 p)
         else ([], p))
      else ([], p))"

definition nt_split :: "string \<Rightarrow> string \<times> string" where
  "nt_split p0 =
     (case nt_splitdrive p0 of
        (d, p) \<Rightarrow>
          (let i = length (dropWhile (\<lambda>c. c \<notin> seps) (rev p));
               head = take i p;
               tail = drop i p;
               head2 = rev (dropWhile (\<lambda>c. c \<in> seps) (rev head))
           in (d @ (if head2 = [] then head else head2), tail)))"

definition nt_join :: "string \<Rightarrow> string \<Rightarrow> string" where
  "nt_join path p =
     (case nt_splitdrive path of
        (result_drive, result_path) \<Rightarrow>
          (case nt_splitdrive p of
             (p_drive, p_path) \<Rightarrow>
               (case
                  (if p_path \<noteq> [] \<and> hd p_path \<in> seps then
                     (if p_drive \<noteq> [] \<or> result_drive = [] then p_drive else result_drive,
                      p_path)
                   else if p_drive \<noteq> [] \<and> p_drive \<noteq> result_drive
                           \<and> py_lower p_drive \<noteq> py_lower result_drive then
                     (p_drive, p_path)
                   else
                     (if p_drive \<noteq> [] \<and> p_drive \<noteq> result_drive then p_drive
                      else result_drive,
                      (if result_path \<noteq> [] \<and> last result_path \<notin> seps
                       then result_path @ [bs] else result_path) @ p_path))
                of (result_drive, result_path) \<Rightarrow>
                  if result_path \<noteq> [] \<and> hd result_path \<notin> seps
                     \<and> result_drive \<noteq> [] \<and> last result_drive \<noteq> CHR '':''
                  then result_drive @ [bs] @ result_path
                  else result_drive @ result_path)))"

text \<open>
  A normalized drive-absolute path: a drive character, a colon, and then either the root
  separator alone or a separator before each of its components. A component is not empty
  and holds no separator. A component begins like a drive when its second character is a
  colon.
\<close>

definition component :: "string \<Rightarrow> bool" where
  "component s = (s \<noteq> [] \<and> list_all (\<lambda>c. c \<notin> seps) s)"

definition drive_path :: "char \<Rightarrow> string list \<Rightarrow> string" where
  "drive_path d segs =
     [d, CHR '':''] @ (if segs = [] then [bs] else concat (map (\<lambda>s. bs # s) segs))"

definition drive_like :: "string \<Rightarrow> bool" where
  "drive_like s = (take 1 (drop 1 s) = '':'')"

section \<open>A simulated platform\<close>

text \<open>
  A small platform on which the functions can be run: a working directory, the existing
  directories (by their plain absolute paths) with the names a find iteration over each
  yields in order, the names the open find handle has still to yield, and the last error
  code. Text is ASCII here, so decoding and encoding leave the characters as they are. The
  translation function is Mercurial's without a catalog entry for the message: the message
  itself, encoded.
\<close>

record sim_os =
  sim_cwd :: string
  sim_dirs :: "(string \<times> bytes list) list"
  sim_pending :: "bytes list"
  sim_error :: int

definition sim_plain :: "string \<Rightarrow> string" where
  "sim_plain p = (if startswith p uncprefix then drop 4 p else p)"

definition sim_natives :: "sim_os natives" where
  "sim_natives =
     \<lparr> utf8_decode = Some,
       utf8_encode = (\<lambda>s. s),
       os_path_abspath =
         (\<lambda>os p. if startswith p [bs] \<or> take 1 (drop 1 p) = '':'' then p
                  else nt_join (sim_cwd os) p),
       os_path_join = nt_join,
       os_path_exists = (\<lambda>os p. map_of (sim_dirs os) (sim_plain p) \<noteq> None),
       os_chdir =
         (\<lambda>p os. if map_of (sim_dirs os) (sim_plain p) \<noteq> None
                  then (Inr (), os\<lparr>sim_cwd := p\<rparr>)
                  else (Inl (OSError ENOENT (''cannot find the path'', [PyStr p])), os)),
       FindFirstFile =
         (\<lambda>p out os.
            case map_of (sim_dirs os) (sim_plain (take (length p - 2) p)) of
              None \<Rightarrow> (INVALID_HANDLE_VALUE, out, os\<lparr>sim_error := ERROR_PATH_NOT_FOUND\<rparr>)
            | Some [] \<Rightarrow> (INVALID_HANDLE_VALUE, out, os\<lparr>sim_error := ERROR_FILE_NOT_FOUND\<rparr>)
            | Some (n # ns) \<Rightarrow> (1, out\<lparr>cFileName := n\<rparr>, os\<lparr>sim_pending := ns\<rparr>)),
       FindNextFile =
         (\<lambda>h out os.
            if h = INVALID_HANDLE_VALUE then (0, out, os\<lparr>sim_error := 6\<rparr>)
            else (case sim_pending os of
                    [] \<Rightarrow> (0, out, os\<lparr>sim_error := 18\<rparr>)
                  | n # ns \<Rightarrow> (1, out\<lparr>cFileName := n\<rparr>, os\<lparr>sim_pending := ns\<rparr>))),
       FindClose = (\<lambda>h os. os\<lparr>sim_pending := []\<rparr>),
       GetLastError = sim_error,
       CreateDirectory =
         (\<lambda>p sd os.
            if map_of (sim_dirs os) (sim_plain p) \<noteq> None
            then (0, os\<lparr>sim_error := ERROR_ALREADY_EXISTS\<rparr>)
            else (1, os\<lparr>sim_dirs := sim_dirs os @ [(sim_plain p, [''.'', ''..''])]\<rparr>)),
       gettext = PyBytes \<rparr>"

text \<open>One existing directory, \<open>C:\work\<close>, holding the single file \<open>a.txt\<close>.\<close>

definition sim_work :: string where
  "sim_work = ''C:'' @ [bs] @ ''work''"

definition sim_os0 :: sim_os where
  "sim_os0 =
     \<lparr> sim_cwd = ''C:'' @ [bs],
       sim_dirs = [(sim_work, [''.'', ''..'', ''a.txt''])],
       sim_pending = [],
       sim_error = 0 \<rparr>"

text \<open>
  A directory that does not exist, a path of more than 248 characters that does not exist
  either, and the state of the module at its start.
\<close>

definition sim_nodir :: string where
  "sim_nodir = ''C:'' @ [bs] @ ''nodir''"

definition sim_long :: string where
  "sim_long = ''C:'' @ [bs] @ ''x'' @ replicate 250 CHR ''a''"

definition sim_world0 :: "sim_os world" where
  "sim_world0 = \<lparr>os_of = sim_os0, cwd = None, ui_warn = []\<rparr>"

section \<open>Theorems\<close>

subsection \<open>Path encoding\<close>

lemma uncabspath_result_prefixed:
  "uncabspath sys os (PyStr p) = Inr q \<Longrightarrow>
     startswith q uncprefix \<or> startswith q deviceprefix \<or> py_upper q \<in> WINDOWS_RESERVED_NAMES"
  by (auto simp: uncabspath_def bytestostring_def Let_def startswith_def split: if_splits)

lemma uncabspath_str_returns: "\<exists>q. uncabspath sys os (PyStr p) = Inr q"
  by (simp add: uncabspath_def bytestostring_def Let_def)

lemma uncabspath_stable:
  assumes "uncabspath sys os (PyStr p) = Inr q"
  shows "uncabspath sys os' (PyStr q) = Inr q"
  using uncabspath_result_prefixed [OF assms]
  by (auto simp: uncabspath_def bytestostring_def)

text \<open>
  A byte string is decoded and then treated as the text it holds; a value that is neither
  text nor a byte string is refused.
\<close>

lemma uncabspath_bytes:
  "uncabspath sys os (PyBytes b) =
     (case utf8_decode sys b of
        None \<Rightarrow> Inl UnicodeDecodeError
      | Some s \<Rightarrow> uncabspath sys os (PyStr s))"
  by (simp add: uncabspath_def bytestostring_def split: option.splits)

lemma uncabspath_nontext:
  assumes "\<forall>s. v \<noteq> PyStr s" and "\<forall>b. v \<noteq> PyBytes b"
  shows "uncabspath sys os v = Inl (TypeError (''%s is not a string (%s)'', [v, py_type v]))"
  using assms by (cases v) (simp_all add: uncabspath_def bytestostring_def)

lemma uncabspath_CreateDirectory_update:
  "uncabspath (sys\<lparr>CreateDirectory := f\<rparr>) os v = uncabspath sys os v"
  by (cases v) (simp_all add: uncabspath_def bytestostring_def split: option.splits)

text \<open>
  Claim C4. A string that starts with the extended-length marker or with the device marker,
  or whose upper case is a reserved device name, is returned by \<open>uncabspath\<close> as it is.
  And for every string \<open>p\<close>, \<open>uncabspath\<close> returns some \<open>q\<close>, and applying \<open>uncabspath\<close>
  to \<open>q\<close> returns \<open>q\<close> again, in whatever state the system then is.
\<close>

theorem uncabspath_unchanged_idempotent:
  "(startswith p uncprefix \<or> startswith p deviceprefix \<or> py_upper p \<in> WINDOWS_RESERVED_NAMES
      \<longrightarrow> uncabspath sys os (PyStr p) = Inr p)
   \<and> (\<exists>q. uncabspath sys os (PyStr p) = Inr q \<and> (\<forall>os'. uncabspath sys os' (PyStr q) = Inr q))"
proof (intro conjI impI)
  assume "startswith p uncprefix \<or> startswith p deviceprefix \<or> py_upper p \<in> WINDOWS_RESERVED_NAMES"
  then show "uncabspath sys os (PyStr p) = Inr p"
    by (auto simp: uncabspath_def bytestostring_def)
next
  obtain q where q: "uncabspath sys os (PyStr p) = Inr q"
    using uncabspath_str_returns [of sys os p] by blast
  have "\<forall>os'. uncabspath sys os' (PyStr q) = Inr q"
    using uncabspath_stable [OF q] by blast
  with q show "\<exists>q. uncabspath sys os (PyStr p) = Inr q \<and> (\<forall>os'. uncabspath sys os' (PyStr q) = Inr q)"
    by blast
qed

theorem uncabspath_unchanged_idempotent_witness:
  "py_upper ''con'' \<in> WINDOWS_RESERVED_NAMES
   \<and> uncabspath sim_natives sim_os0 (PyStr ''con'') = Inr ''con''
   \<and> startswith (uncprefix @ sim_work) uncprefix
   \<and> uncabspath sim_natives sim_os0 (PyStr (uncprefix @ sim_work)) = Inr (uncprefix @ sim_work)"
proof -
  have r: "py_upper ''con'' \<in> WINDOWS_RESERVED_NAMES"
    by (simp add: py_upper_def upper_char_def WINDOWS_RESERVED_NAMES_def)
  have s: "startswith (uncprefix @ sim_work) uncprefix"
    by (simp add: startswith_def)
  from r s uncabspath_unchanged_idempotent [of "''con''" sim_natives sim_os0]
    uncabspath_unchanged_idempotent [of "uncprefix @ sim_work" sim_natives sim_os0]
  show ?thesis by blast
qed

text \<open>
  Claim C5. Let \<open>p\<close> be an absolute path, one that the platform's \<open>abspath\<close> leaves as it
  is, that is not yet in extended or device form and is not a reserved name. If \<open>p\<close> begins
  with two separators, \<open>uncabspath\<close> returns the extended marker, then \<open>UNC\<close>, then \<open>p\<close>
  from its second separator on; otherwise it returns the extended marker followed by \<open>p\<close>.
  Applying \<open>uncabspath\<close> to either result returns that result unchanged.
\<close>

theorem uncabspath_encodes_absolute:
  assumes "\<not> startswith p uncprefix" and "\<not> startswith p deviceprefix"
      and "py_upper p \<notin> WINDOWS_RESERVED_NAMES"
      and "os_path_abspath sys os p = p"
  shows "(startswith p [bs, bs] \<longrightarrow>
            uncabspath sys os (PyStr p) = Inr (uncprefix @ ''UNC'' @ drop 1 p))
       \<and> (\<not> startswith p [bs, bs] \<longrightarrow> uncabspath sys os (PyStr p) = Inr (uncprefix @ p))
       \<and> (\<forall>q os'. uncabspath sys os (PyStr p) = Inr q \<longrightarrow> uncabspath sys os' (PyStr q) = Inr q)"
proof (intro conjI impI allI)
  assume "startswith p [bs, bs]"
  with assms show "uncabspath sys os (PyStr p) = Inr (uncprefix @ ''UNC'' @ drop 1 p)"
    by (simp add: uncabspath_def bytestostring_def)
next
  assume "\<not> startswith p [bs, bs]"
  with assms show "uncabspath sys os (PyStr p) = Inr (uncprefix @ p)"
    by (simp add: uncabspath_def bytestostring_def)
next
  fix q os'
  assume "uncabspath sys os (PyStr p) = Inr q"
  then show "uncabspath sys os' (PyStr q) = Inr q"
    by (rule uncabspath_stable)
qed

theorem uncabspath_encodes_absolute_witness:
  "uncabspath sim_natives sim_os0 (PyStr ([bs, bs] @ ''server'' @ [bs] @ ''share'' @ [bs] @ ''x''))
     = Inr (uncprefix @ ''UNC'' @ [bs] @ ''server'' @ [bs] @ ''share'' @ [bs] @ ''x'')
   \<and> uncabspath sim_natives sim_os0 (PyStr sim_work) = Inr (uncprefix @ sim_work)
   \<and> uncabspath sim_natives sim_os0 (PyStr (uncprefix @ sim_work)) = Inr (uncprefix @ sim_work)"
proof -
  let ?u = "[bs, bs] @ ''server'' @ [bs] @ ''share'' @ [bs] @ ''x''"
  have u: "\<not> startswith ?u uncprefix" "\<not> startswith ?u deviceprefix"
      "py_upper ?u \<notin> WINDOWS_RESERVED_NAMES" "os_path_abspath sim_natives sim_os0 ?u = ?u"
      "startswith ?u [bs, bs]"
    by (simp_all add: startswith_def uncprefix_def deviceprefix_def py_upper_def upper_char_def
        WINDOWS_RESERVED_NAMES_def sim_natives_def)
  have l: "\<not> startswith sim_work uncprefix" "\<not> startswith sim_work deviceprefix"
      "py_upper sim_work \<notin> WINDOWS_RESERVED_NAMES"
      "os_path_abspath sim_natives sim_os0 sim_work = sim_work"
      "\<not> startswith sim_work [bs, bs]"
    by (simp_all add: startswith_def uncprefix_def deviceprefix_def py_upper_def upper_char_def
        WINDOWS_RESERVED_NAMES_def sim_natives_def sim_work_def)
  from uncabspath_encodes_absolute [OF u(1-4)] u(5)
  have 1: "uncabspath sim_natives sim_os0 (PyStr ?u) = Inr (uncprefix @ ''UNC'' @ drop 1 ?u)"
    by blast
  from uncabspath_encodes_absolute [OF l(1-4)] l(5)
  have 2: "uncabspath sim_natives sim_os0 (PyStr sim_work) = Inr (uncprefix @ sim_work)"
    and 3: "uncabspath sim_natives sim_os0 (PyStr (uncprefix @ sim_work)) = Inr (uncprefix @ sim_work)"
    by blast+
  from 1 2 3 show ?thesis by simp
qed

subsection \<open>Arguments that are not text\<close>

text \<open>
  Claim C8. When the first positional argument is neither text nor a byte string, a
  one-path wrapper, a two-path wrapper, the directory listing and the directory creation
  all raise \<open>TypeError\<close>, whose message is built from the offending value and its type. The
  outcome is the same whatever the wrapped primitive and the platform's functions are, and
  the system's state is the one the call started in: nothing native has run.
\<close>

theorem nontext_argument_rejected:
  assumes "\<forall>s. v \<noteq> PyStr s" and "\<forall>b. v \<noteq> PyBytes b"
  shows "wrap1 sys method (v # args) kwargs os
           = (Inl (TypeError (''%s is not a string (%s)'', [v, py_type v])), os)
       \<and> wrap2 sys method2 (v # args) kwargs os
           = (Inl (TypeError (''%s is not a string (%s)'', [v, py_type v])), os)
       \<and> lfnlistdir sys v os
           = Some (Inl (TypeError (''%s is not a string (%s)'', [v, py_type v])), os)
       \<and> lfnmkdir sys v mode os
           = (Inl (TypeError (''%s is not a string (%s)'', [v, py_type v])), os)"
  by (simp add: wrap1_def wrap2_def lfnlistdir_def lfnmkdir_def uncabspath_nontext [OF assms])

theorem nontext_argument_rejected_witness:
  "wrap1 sim_natives (\<lambda>p rest (kw :: unit) os. (Inr p, os)) [PyInt 5, PyStr ''r''] () sim_os0
     = (Inl (TypeError (''%s is not a string (%s)'', [PyInt 5, PyType ''int''])), sim_os0)
   \<and> wrap2 sim_natives (\<lambda>p q rest (kw :: unit) os. (Inr p, os)) [PyInt 5, PyStr ''r''] () sim_os0
     = (Inl (TypeError (''%s is not a string (%s)'', [PyInt 5, PyType ''int''])), sim_os0)
   \<and> lfnlistdir sim_natives PyNone sim_os0
     = Some (Inl (TypeError (''%s is not a string (%s)'', [PyNone, PyType ''NoneType''])), sim_os0)"
  using nontext_argument_rejected [of "PyInt 5" sim_natives "\<lambda>p rest (kw :: unit) os. (Inr p, os)"
      "[PyStr ''r'']" "()" sim_os0 "\<lambda>p q rest (kw :: unit) os. (Inr p, os)" PyNone]
    nontext_argument_rejected [of PyNone sim_natives "\<lambda>p rest (kw :: unit) os. (Inr p, os)"
      "[]" "()" sim_os0 "\<lambda>p q rest (kw :: unit) os. (Inr p, os)" PyNone]
  by simp

subsection \<open>Directory creation\<close>

text \<open>
  Claim C9. When the native creation call fails (returns 0) and the last error is the
  native already-exists code, \<open>lfnmkdir\<close> raises \<open>OSError\<close> with the portable code
  \<open>EEXIST\<close>.
\<close>

theorem lfnmkdir_already_exists:
  assumes "uncabspath sys os path0 = Inr path"
      and "CreateDirectory sys path PyNone os = (0, os1)"
      and "GetLastError sys os1 = ERROR_ALREADY_EXISTS"
  shows "lfnmkdir sys path0 mode os = (Inl (OSError EEXIST (''Error'', [])), os1)"
  using assms
  by (simp add: lfnmkdir_def errmap_def ERROR_ALREADY_EXISTS_def ERROR_PATH_NOT_FOUND_def)

theorem lfnmkdir_already_exists_witness:
  "uncabspath sim_natives sim_os0 (PyStr sim_work) = Inr (uncprefix @ sim_work)
   \<and> CreateDirectory sim_natives (uncprefix @ sim_work) PyNone sim_os0
       = (0, sim_os0\<lparr>sim_error := ERROR_ALREADY_EXISTS\<rparr>)
   \<and> lfnmkdir sim_natives (PyStr sim_work) PyNone sim_os0
       = (Inl (OSError EEXIST (''Error'', [])), sim_os0\<lparr>sim_error := ERROR_ALREADY_EXISTS\<rparr>)"
proof -
  have a: "uncabspath sim_natives sim_os0 (PyStr sim_work) = Inr (uncprefix @ sim_work)"
    by (simp add: uncabspath_def bytestostring_def startswith_def uncprefix_def deviceprefix_def
        py_upper_def upper_char_def WINDOWS_RESERVED_NAMES_def sim_natives_def sim_work_def)
  have b: "CreateDirectory sim_natives (uncprefix @ sim_work) PyNone sim_os0
             = (0, sim_os0\<lparr>sim_error := ERROR_ALREADY_EXISTS\<rparr>)"
    by (simp add: sim_natives_def sim_plain_def startswith_def uncprefix_def sim_os0_def)
  have c: "GetLastError sim_natives (sim_os0\<lparr>sim_error := ERROR_ALREADY_EXISTS\<rparr>)
             = ERROR_ALREADY_EXISTS"
    by (simp add: sim_natives_def)
  from a b lfnmkdir_already_exists [OF a b c, of PyNone] show ?thesis by simp
qed

text \<open>
  Claim C10. The mode argument has no effect: two calls that differ only in the mode give
  the same result and the same state. The security descriptor handed to the native
  creation call is always \<open>None\<close>: replacing the native call by one that ignores the
  descriptor it is given and uses \<open>None\<close> changes nothing.
\<close>

theorem lfnmkdir_mode_ignored:
  "lfnmkdir sys path m1 os = lfnmkdir sys path m2 os
   \<and> lfnmkdir sys path m1 os
       = lfnmkdir (sys\<lparr>CreateDirectory := \<lambda>p sd. CreateDirectory sys p PyNone\<rparr>) path m1 os"
  by (simp add: lfnmkdir_def uncabspath_CreateDirectory_update split: sum.splits prod.splits)

subsection \<open>The error table\<close>

lemma errmap_dom: "dom errmap = {ERROR_PATH_NOT_FOUND, ERROR_ALREADY_EXISTS}"
  by (auto simp: errmap_def split: if_splits)

lemma lfnmkdir_failed:
  assumes "uncabspath sys os path0 = Inr path"
      and "CreateDirectory sys path PyNone os = (0, os1)"
  shows "lfnmkdir sys path0 mode os =
           (case errmap (GetLastError sys os1) of
              None \<Rightarrow> (Inl (KeyError (PyInt (GetLastError sys os1))), os1)
            | Some n \<Rightarrow> (Inl (OSError n (''Error'', [])), os1))"
  using assms by (simp add: lfnmkdir_def Let_def)

text \<open>
  Claim C3 does not hold as stated: the table has no entry for the native file-not-found
  code, and when the directory creation fails with a code outside the table (here 5, access
  denied) the lookup itself fails with \<open>KeyError\<close>.
\<close>

theorem errmap_unmapped_counterexample:
  "errmap ERROR_FILE_NOT_FOUND = None
   \<and> lfnmkdir (sim_natives\<lparr>CreateDirectory := \<lambda>p sd os. (0, os\<lparr>sim_error := 5\<rparr>)\<rparr>)
        (PyStr sim_work) PyNone sim_os0
       = (Inl (KeyError (PyInt 5)), sim_os0\<lparr>sim_error := 5\<rparr>)"
  by (simp add: errmap_def ERROR_FILE_NOT_FOUND_def ERROR_PATH_NOT_FOUND_def ERROR_ALREADY_EXISTS_def
      lfnmkdir_def uncabspath_def bytestostring_def startswith_def uncprefix_def deviceprefix_def
      py_upper_def upper_char_def WINDOWS_RESERVED_NAMES_def sim_natives_def sim_work_def)

text \<open>
  Claim C3, amended. The table has exactly two entries: the native path-not-found code is
  mapped to \<open>ENOENT\<close> and the native already-exists code to \<open>EEXIST\<close>. A directory
  creation that fails never returns normally; when its code is in the table, the failure
  is an \<open>OSError\<close> carrying the mapped portable code.
\<close>

theorem errmap_table_failed_mkdir:
  "errmap ERROR_PATH_NOT_FOUND = Some ENOENT
   \<and> errmap ERROR_ALREADY_EXISTS = Some EEXIST
   \<and> dom errmap = {ERROR_PATH_NOT_FOUND, ERROR_ALREADY_EXISTS}
   \<and> (uncabspath sys os path0 = Inr path \<and> CreateDirectory sys path PyNone os = (0, os1) \<longrightarrow>
        (\<exists>e. lfnmkdir sys path0 mode os = (Inl e, os1))
        \<and> (\<forall>n. errmap (GetLastError sys os1) = Some n \<longrightarrow>
              lfnmkdir sys path0 mode os = (Inl (OSError n (''Error'', [])), os1)))"
proof (intro conjI impI allI)
  show "errmap ERROR_PATH_NOT_FOUND = Some ENOENT"
    by (simp add: errmap_def)
  show "errmap ERROR_ALREADY_EXISTS = Some EEXIST"
    by (simp add: errmap_def ERROR_PATH_NOT_FOUND_def ERROR_ALREADY_EXISTS_def)
  show "dom errmap = {ERROR_PATH_NOT_FOUND, ERROR_ALREADY_EXISTS}"
    by (rule errmap_dom)
next
  assume a: "uncabspath sys os path0 = Inr path \<and> CreateDirectory sys path PyNone os = (0, os1)"
  then show "\<exists>e. lfnmkdir sys path0 mode os = (Inl e, os1)"
    by (cases "errmap (GetLastError sys os1)") (simp_all add: lfnmkdir_failed)
next
  fix n
  assume "uncabspath sys os path0 = Inr path \<and> CreateDirectory sys path PyNone os = (0, os1)"
    and "errmap (GetLastError sys os1) = Some n"
  then show "lfnmkdir sys path0 mode os = (Inl (OSError n (''Error'', [])), os1)"
    by (simp add: lfnmkdir_failed)
qed

theorem errmap_table_failed_mkdir_witness:
  "uncabspath sim_natives sim_os0 (PyStr sim_work) = Inr (uncprefix @ sim_work)
   \<and> CreateDirectory sim_natives (uncprefix @ sim_work) PyNone sim_os0
       = (0, sim_os0\<lparr>sim_error := ERROR_ALREADY_EXISTS\<rparr>)
   \<and> errmap (GetLastError sim_natives (sim_os0\<lparr>sim_error := ERROR_ALREADY_EXISTS\<rparr>)) = Some EEXIST
   \<and> lfnmkdir sim_natives (PyStr sim_work) PyNone sim_os0
       = (Inl (OSError EEXIST (''Error'', [])), sim_os0\<lparr>sim_error := ERROR_ALREADY_EXISTS\<rparr>)"
proof -
  have a: "uncabspath sim_natives sim_os0 (PyStr sim_work) = Inr (uncprefix @ sim_work)"
    by (simp add: uncabspath_def bytestostring_def startswith_def uncprefix_def deviceprefix_def
        py_upper_def upper_char_def WINDOWS_RESERVED_NAMES_def sim_natives_def sim_work_def)
  have b: "CreateDirectory sim_natives (uncprefix @ sim_work) PyNone sim_os0
             = (0, sim_os0\<lparr>sim_error := ERROR_ALREADY_EXISTS\<rparr>)"
    by (simp add: sim_natives_def sim_plain_def startswith_def uncprefix_def sim_os0_def)
  have c: "errmap (GetLastError sim_natives (sim_os0\<lparr>sim_error := ERROR_ALREADY_EXISTS\<rparr>))
             = Some EEXIST"
    by (simp add: sim_natives_def errmap_def ERROR_PATH_NOT_FOUND_def ERROR_ALREADY_EXISTS_def)
  from a b c
    errmap_table_failed_mkdir [of sim_natives sim_os0 "PyStr sim_work" "uncprefix @ sim_work"
      "sim_os0\<lparr>sim_error := ERROR_ALREADY_EXISTS\<rparr>" PyNone]
  show ?thesis by blast
qed

subsection \<open>Change of directory\<close>

text \<open>
  Whatever the platform and the translation function: when \<open>lfnchdir\<close> returns normally,
  \<open>_cwd\<close> holds the encoded absolute target and the existence check on it has succeeded;
  when \<open>lfnchdir\<close> fails, \<open>_cwd\<close> is what it was.
\<close>

lemma lfnchdir_success_stored:
  assumes "fst (lfnchdir sys path w) = Inr u"
  shows "\<exists>q. cwd (snd (lfnchdir sys path w)) = Some q
           \<and> os_path_exists sys (os_of (snd (lfnchdir sys path w))) q
           \<and> uncabspath sys (os_of (snd (lfnchdir sys path w)))
                (PyStr (os_path_abspath sys (os_of w) path)) = Inr q"
  using assms
  by (auto simp: lfnchdir_def Let_def split: if_splits sum.splits prod.splits)

lemma lfnchdir_failure_keeps_cwd:
  assumes "fst (lfnchdir sys path w) = Inl e"
  shows "cwd (snd (lfnchdir sys path w)) = cwd w"
  using assms
  by (auto simp: lfnchdir_def Let_def split: if_splits sum.splits prod.splits)

text \<open>
  A target shorter than 248 characters: the platform's change of directory runs first. If
  it succeeds and the encoded target exists, the target is stored; if it fails, its failure
  is the failure of \<open>lfnchdir\<close>.
\<close>

lemma lfnchdir_short_existing:
  assumes "length (os_path_abspath sys (os_of w) path) < maxdirpath"
      and "os_chdir sys (os_path_abspath sys (os_of w) path) (os_of w) = (Inr u, os1)"
      and "uncabspath sys os1 (PyStr (os_path_abspath sys (os_of w) path)) = Inr q"
      and "os_path_exists sys os1 q"
  shows "lfnchdir sys path w = (Inr (), w\<lparr>os_of := os1, cwd := Some q\<rparr>)"
  using assms by (simp add: lfnchdir_def Let_def)

lemma lfnchdir_short_failed:
  assumes "length (os_path_abspath sys (os_of w) path) < maxdirpath"
      and "os_chdir sys (os_path_abspath sys (os_of w) path) (os_of w) = (Inl e, os1)"
  shows "lfnchdir sys path w = (Inl e, w\<lparr>os_of := os1\<rparr>)"
  using assms by (simp add: lfnchdir_def Let_def)

text \<open>
  A target of 248 characters or more: the warning is built first. When the translation
  function returns \<open>bytes\<close>, as Mercurial's does on Python 3, \<open>%\<close> raises \<open>TypeError\<close>
  and nothing else happens, whether the target exists or not. When it returns the message
  itself, the warning is handed over, an existing target is stored and a missing one is
  refused with \<open>ENOENT\<close>.
\<close>

lemma lfnchdir_long_bytes:
  assumes "length (os_path_abspath sys (os_of w) path) \<ge> maxdirpath"
      and "gettext sys (''warning: chdir to a long directory path (see hg help win32lfn):''
                            @ [CHR 0x0A] @ ''%s'') = PyBytes b"
  shows "lfnchdir sys path w =
           (Inl (TypeError (''%b requires a bytes-like object, or an object that implements __bytes__, not '%s'' @ [CHR 0x27],
                   [PyType ''str''])), w)"
  using assms by (simp add: lfnchdir_def Let_def)

lemma lfnchdir_long_str:
  assumes "length (os_path_abspath sys (os_of w) path) \<ge> maxdirpath"
      and "\<And>m. gettext sys m = PyStr m"
      and "uncabspath sys (os_of w) (PyStr (os_path_abspath sys (os_of w) path)) = Inr q"
  shows "lfnchdir sys path w =
           (let w1 = w\<lparr>ui_warn := ui_warn w @
                       [(''warning: chdir to a long directory path (see hg help win32lfn):''
                            @ [CHR 0x0A] @ ''%s'', [PyStr (os_path_abspath sys (os_of w) path)])]\<rparr>
            in if os_path_exists sys (os_of w) q
               then (Inr (), w1\<lparr>cwd := Some q\<rparr>)
               else (Inl (OSError ENOENT (''Directory doesn't exist: %s'', [PyStr q])), w1))"
  using assms by (simp add: lfnchdir_def Let_def)

text \<open>
  The message of the not-found error is built in the same way: when the encoded target
  is missing and the translation function returns \<open>bytes\<close>, the failure is the
  \<open>TypeError\<close> of \<open>%\<close>, not the \<open>OSError\<close>.
\<close>

lemma lfnchdir_missing_bytes:
  assumes "length (os_path_abspath sys (os_of w) path) < maxdirpath"
      and "os_chdir sys (os_path_abspath sys (os_of w) path) (os_of w) = (Inr u, os1)"
      and "uncabspath sys os1 (PyStr (os_path_abspath sys (os_of w) path)) = Inr q"
      and "\<not> os_path_exists sys os1 q"
      and "gettext sys ''Directory doesn't exist: %s'' = PyBytes b"
  shows "lfnchdir sys path w =
           (Inl (TypeError (''%b requires a bytes-like object, or an object that implements __bytes__, not '%s'' @ [CHR 0x27],
                   [PyType ''str''])), w\<lparr>os_of := os1\<rparr>)"
  using assms by (simp add: lfnchdir_def Let_def)

text \<open>
  With the identity as translation function a target that does not exist is refused with
  a not-found error: by \<open>lfnchdir\<close> itself when the target has 248 characters or more,
  and otherwise by the platform's change of directory, as long as that fails on a missing
  target with a not-found error only.
\<close>

lemma lfnchdir_missing_plain:
  assumes "\<And>m. gettext sys m = PyStr m"
      and "\<forall>os1 q. (os1 = os_of w
                  \<or> os1 = snd (os_chdir sys (os_path_abspath sys (os_of w) path) (os_of w)))
              \<longrightarrow> uncabspath sys os1 (PyStr (os_path_abspath sys (os_of w) path)) = Inr q
              \<longrightarrow> \<not> os_path_exists sys os1 q"
      and "\<forall>e. fst (os_chdir sys (os_path_abspath sys (os_of w) path) (os_of w)) = Inl e
              \<longrightarrow> is_ENOENT e"
  shows "\<exists>e. fst (lfnchdir sys path w) = Inl e \<and> is_ENOENT e"
proof -
  let ?p = "os_path_abspath sys (os_of w) path"
  show ?thesis
  proof (cases "length ?p \<ge> maxdirpath")
    case True
    obtain q where q: "uncabspath sys (os_of w) (PyStr ?p) = Inr q"
      using uncabspath_str_returns [of sys "os_of w" ?p] by blast
    with assms(2) have "\<not> os_path_exists sys (os_of w) q" by blast
    with True q show ?thesis
      by (simp add: lfnchdir_def Let_def assms(1) is_ENOENT_def)
  next
    case False
    obtain r os1 where c: "os_chdir sys ?p (os_of w) = (r, os1)"
      by (cases "os_chdir sys ?p (os_of w)") auto
    show ?thesis
    proof (cases r)
      case (Inl e)
      with assms(3) c have "is_ENOENT e" by simp
      with False c Inl show ?thesis
        by (simp add: lfnchdir_def Let_def)
    next
      case (Inr u)
      obtain q where q: "uncabspath sys os1 (PyStr ?p) = Inr q"
        using uncabspath_str_returns [of sys os1 ?p] by blast
      with assms(2) c have "\<not> os_path_exists sys os1 q" by simp
      with False c Inr q show ?thesis
        by (simp add: lfnchdir_def Let_def assms(1) is_ENOENT_def)
    qed
  qed
qed

text \<open>
  On the simulated platform: the existing directory \<open>work\<close> beneath the working directory
  is entered and stored in encoded form; and with the identity as translation function a
  long target that does not exist is refused with \<open>ENOENT\<close> after the warning.
\<close>

lemma lfnchdir_existing_example:
  "lfnchdir sim_natives ''work'' sim_world0
     = (Inr (), \<lparr>os_of = sim_os0\<lparr>sim_cwd := sim_work\<rparr>, cwd = Some (uncprefix @ sim_work),
                 ui_warn = []\<rparr>)"
  by (simp add: lfnchdir_def sim_world0_def maxdirpath_def uncabspath_def bytestostring_def
      startswith_def uncprefix_def deviceprefix_def py_upper_def upper_char_def
      WINDOWS_RESERVED_NAMES_def sim_natives_def sim_os0_def sim_plain_def sim_work_def
      nt_join_def nt_splitdrive_def py_find_def seps_def Let_def)

lemma lfnchdir_plain_example:
  "lfnchdir (sim_natives\<lparr>gettext := PyStr\<rparr>) sim_long sim_world0
     = (Inl (OSError ENOENT (''Directory doesn't exist: %s'', [PyStr (uncprefix @ sim_long)])),
        sim_world0\<lparr>ui_warn :=
           [(''warning: chdir to a long directory path (see hg help win32lfn):'' @ [CHR 0x0A] @ ''%s'',
             [PyStr sim_long])]\<rparr>)"
  by (simp add: lfnchdir_def sim_world0_def maxdirpath_def uncabspath_def bytestostring_def
      startswith_def uncprefix_def deviceprefix_def py_upper_def upper_char_def
      WINDOWS_RESERVED_NAMES_def sim_natives_def sim_os0_def sim_plain_def sim_work_def
      sim_long_def Let_def)

text \<open>
  Claim C7, evaluated on the simulated platform, whose translation function returns
  \<open>bytes\<close> as Mercurial's does, for a target of more than 248 characters that does not
  exist: the failure is not a not-found error but the \<open>TypeError\<close> that \<open>%\<close> raises while
  the warning is built. The state, \<open>_cwd\<close> included, is unchanged.
\<close>

theorem lfnchdir_long_missing_target:
  "length (os_path_abspath sim_natives sim_os0 sim_long) \<ge> maxdirpath
   \<and> uncabspath sim_natives sim_os0 (PyStr sim_long) = Inr (uncprefix @ sim_long)
   \<and> \<not> os_path_exists sim_natives sim_os0 (uncprefix @ sim_long)
   \<and> lfnchdir sim_natives sim_long sim_world0
       = (Inl (TypeError (''%b requires a bytes-like object, or an object that implements __bytes__, not '%s'' @ [CHR 0x27],
                 [PyType ''str''])), sim_world0)"
  by (simp add: lfnchdir_def sim_world0_def maxdirpath_def uncabspath_def bytestostring_def
      startswith_def uncprefix_def deviceprefix_def py_upper_def upper_char_def
      WINDOWS_RESERVED_NAMES_def sim_natives_def sim_os0_def sim_plain_def sim_work_def
      sim_long_def Let_def)

subsection \<open>Directory listing\<close>

text \<open>
  Every name in the buffer is appended: a \<open>bytes\<close> value is never equal to the text
  \<open>..\<close> or \<open>.\<close>, so the test in the loop never removes an entry. In particular the
  result starts with the name that is in the buffer when the loop is entered, and is
  never empty.
\<close>

lemma lfnlistdir_loop_appends:
  assumes "lfnlistdir_loop sys fldr out os acc = Some y"
  shows "\<exists>ns. fst y = acc @ PyBytes (cFileName out) # ns"
  using assms
proof (induction sys fldr out os acc y
    rule: lfnlistdir_loop.raw_induct [rotated 1, consumes 1, case_names step])
  case (step loop sys fldr out os acc y)
  obtain found out' os' where f: "FindNextFile sys fldr out os = (found, out', os')"
    by (cases "FindNextFile sys fldr out os") auto
  show ?case
  proof (cases "found = 0")
    case True
    with step(2) f show ?thesis by (auto simp: Let_def)
  next
    case False
    with step(2) f have "loop sys fldr out' os' (acc @ [PyBytes (cFileName out)]) = Some y"
      by (simp add: Let_def)
    from step(1) [OF this] show ?thesis by auto
  qed
qed

lemma lfnlistdir_never_empty:
  assumes "lfnlistdir sys path os = Some (Inr names, os')"
  shows "names \<noteq> []"
proof -
  from assms obtain p where p: "uncabspath sys os path = Inr p"
    by (auto simp: lfnlistdir_def split: sum.splits)
  obtain fldr out os1 where
    f: "FindFirstFile sys (os_path_join sys p ''*'') WIN32_FIND_DATAA os = (fldr, out, os1)"
    by (cases "FindFirstFile sys (os_path_join sys p ''*'') WIN32_FIND_DATAA os") auto
  from assms p f obtain y where
    l: "lfnlistdir_loop sys fldr out os1 [] = Some y" and y: "fst y = names"
    by (auto simp: lfnlistdir_def split: if_splits option.splits)
  from lfnlistdir_loop_appends [OF l] y show ?thesis by auto
qed

lemma lfnlistdir_invalid_handle:
  assumes "uncabspath sys os path0 = Inr path"
      and "FindFirstFile sys (os_path_join sys path ''*'') WIN32_FIND_DATAA os
             = (INVALID_HANDLE_VALUE, out, os1)"
      and "GetLastError sys os1 \<noteq> ERROR_PATH_NOT_FOUND"
      and "GetLastError sys os1 \<noteq> ERROR_FILE_NOT_FOUND"
  shows "lfnlistdir sys path0 os =
           Some (Inl (ValueError (''invalid handle (%s, %s)! '',
                   [PyStr path, PyInt (GetLastError sys os1)])), os1)"
  using assms by (simp add: lfnlistdir_def)

text \<open>
  Claim C1, first half, evaluated on the simulated platform for a directory that does not
  exist: the opening call fails with the path-not-found code, no failure is raised, and
  the result is not the empty list but a list holding one empty name, the content of the
  zero-filled buffer. The second half of the claim is lemma \<open>lfnlistdir_invalid_handle\<close>.
\<close>

theorem lfnlistdir_missing_directory:
  "map_option fst (lfnlistdir sim_natives (PyStr sim_nodir) sim_os0) = Some (Inr [PyBytes []])"
  by (simp add: lfnlistdir_def lfnlistdir_loop.simps uncabspath_def bytestostring_def
      startswith_def uncprefix_def deviceprefix_def py_upper_def upper_char_def
      WINDOWS_RESERVED_NAMES_def sim_natives_def sim_os0_def sim_plain_def sim_work_def
      sim_nodir_def nt_join_def nt_splitdrive_def py_find_def seps_def WIN32_FIND_DATAA_def
      INVALID_HANDLE_VALUE_def ERROR_PATH_NOT_FOUND_def ERROR_FILE_NOT_FOUND_def Let_def)

text \<open>
  Claim C2, evaluated on the simulated platform for the existing directory \<open>C:\work\<close>,
  whose iteration yields \<open>.\<close>, \<open>..\<close> and \<open>a.txt\<close>: the names come back in the order of
  the iteration, the two pseudo-entries among them.
\<close>

theorem lfnlistdir_keeps_pseudo_entries:
  "map_option fst (lfnlistdir sim_natives (PyStr sim_work) sim_os0)
     = Some (Inr [PyBytes ''.'', PyBytes ''..'', PyBytes ''a.txt''])"
  by (simp add: lfnlistdir_def lfnlistdir_loop.simps uncabspath_def bytestostring_def
      startswith_def uncprefix_def deviceprefix_def py_upper_def upper_char_def
      WINDOWS_RESERVED_NAMES_def sim_natives_def sim_os0_def sim_plain_def sim_work_def
      nt_join_def nt_splitdrive_def py_find_def seps_def WIN32_FIND_DATAA_def
      INVALID_HANDLE_VALUE_def ERROR_PATH_NOT_FOUND_def ERROR_FILE_NOT_FOUND_def Let_def)

subsection \<open>Split and join at a drive root\<close>

lemma bs_sep [simp]: "bs \<in> seps" and colon_not_sep [simp]: "CHR '':'' \<notin> seps"
  by (simp_all add: seps_def)

lemma cut_last_separator:
  assumes "list_all (\<lambda>c. c \<notin> seps) t"
  shows "dropWhile (\<lambda>c. c \<notin> seps) (rev (x @ bs # t)) = bs # rev x"
proof -
  have "\<And>c. c \<in> set (rev t) \<Longrightarrow> c \<notin> seps"
    using assms by (simp add: list_all_iff)
  then have "dropWhile (\<lambda>c. c \<notin> seps) (rev t @ bs # rev x) = dropWhile (\<lambda>c. c \<notin> seps) (bs # rev x)"
    by (rule dropWhile_append2)
  then show ?thesis by simp
qed

lemma strip_trailing_separator:
  assumes "x \<noteq> []" and "last x \<notin> seps"
  shows "rev (dropWhile (\<lambda>c. c \<in> seps) (rev (x @ [bs]))) = x"
proof (cases x rule: rev_cases)
  case Nil
  with assms show ?thesis by simp
next
  case (snoc y c)
  with assms show ?thesis by simp
qed

lemma split_body:
  assumes "list_all (\<lambda>c. c \<notin> seps) t" and "x \<noteq> []" and "last x \<notin> seps"
  shows "(let p = x @ bs # t;
              i = length (dropWhile (\<lambda>c. c \<notin> seps) (rev p));
              head = take i p;
              tail = drop i p;
              head2 = rev (dropWhile (\<lambda>c. c \<in> seps) (rev head))
          in (d @ (if head2 = [] then head else head2), tail)) = (d @ x, t)"
proof -
  have c: "length (dropWhile (\<lambda>c. c \<notin> seps) (rev (x @ bs # t))) = Suc (length x)"
    by (simp only: cut_last_separator [OF assms(1)] length_Cons length_rev)
  have h: "take (Suc (length x)) (x @ bs # t) = x @ [bs]"
    by simp
  have tl: "drop (Suc (length x)) (x @ bs # t) = t"
    by simp
  show ?thesis
    by (simp only: Let_def c h tl strip_trailing_separator [OF assms(2,3)] assms(2) if_False)
qed

lemma nt_splitdrive_bare: "nt_splitdrive (d # CHR '':'' # r) = ([d, CHR '':''], r)"
  by (simp add: nt_splitdrive_def Let_def)

lemma nt_splitdrive_extended:
  assumes "d \<notin> seps"
  shows "nt_splitdrive (uncprefix @ d # CHR '':'' # bs # r) = (uncprefix @ [d, CHR '':''], bs # r)"
  using assms
  by (simp add: nt_splitdrive_def Let_def uncprefix_def py_find_def py_upper_def upper_char_def seps_def)

lemma nt_splitdrive_component:
  assumes "list_all (\<lambda>c. c \<notin> seps) t" and "\<not> drive_like t"
  shows "nt_splitdrive t = ([], t)"
proof (cases t)
  case Nil
  then show ?thesis by (simp add: nt_splitdrive_def)
next
  case (Cons a r)
  with assms show ?thesis
    by (cases r) (auto simp: nt_splitdrive_def Let_def drive_like_def seps_def)
qed


lemma nt_split_behind_drive:
  assumes "nt_splitdrive P = (D, x @ bs # t)"
      and "list_all (\<lambda>c. c \<notin> seps) t" and "x \<noteq> []" and "last x \<notin> seps"
  shows "nt_split P = (D @ x, t)"
  using split_body [OF assms(2,3,4), of D]
  by (simp only: nt_split_def assms(1) prod.case Let_def)

lemma nt_split_at_root:
  assumes "nt_splitdrive P = (D, bs # t)" and "list_all (\<lambda>c. c \<notin> seps) t"
  shows "nt_split P = (D @ [bs], t)"
proof -
  have c: "dropWhile (\<lambda>c. c \<notin> seps) (rev (bs # t)) = [bs]"
    using cut_last_separator [OF assms(2), of "[]"] by simp
  show ?thesis
    by (simp add: nt_split_def assms(1) c Let_def del: rev.simps)
qed

lemma nt_join_component:
  assumes "nt_splitdrive a = (D, R)" and "D \<noteq> []" and "last D = CHR '':''"
      and "list_all (\<lambda>c. c \<notin> seps) t" and "\<not> drive_like t"
  shows "nt_join a t = D @ (if R \<noteq> [] \<and> last R \<notin> seps then R @ [bs] else R) @ t"
proof -
  have t: "nt_splitdrive t = ([], t)"
    by (rule nt_splitdrive_component [OF assms(4,5)])
  have h: "t \<noteq> [] \<Longrightarrow> hd t \<notin> seps"
    using assms(4) by (cases t) simp_all
  show ?thesis
  proof (cases "t = []")
    case True
    show ?thesis
      unfolding nt_join_def assms(1) t prod.case using assms(2,3) True by simp
  next
    case False
    with h have "hd t \<notin> seps" by simp
    with False show ?thesis
      unfolding nt_join_def assms(1) t prod.case using assms(2,3) by simp
  qed
qed

lemma lfnsplit_head:
  "fst (lfnsplit split P) = addmissingbackslash (fst (split P))"
  "snd (lfnsplit split P) = snd (split P)"
  by (simp_all add: lfnsplit_def addmissingbackslash_def Let_def)

lemma endswith_colon: "endswith h '':'' \<longleftrightarrow> h \<noteq> [] \<and> last h = CHR '':''"
  by (cases h rule: rev_cases) (auto simp: endswith_def)

lemma body_last:
  assumes "ss \<noteq> []" and "list_all component ss"
  shows "concat (map (\<lambda>s. bs # s) ss) \<noteq> [] \<and> last (concat (map (\<lambda>s. bs # s) ss)) \<notin> seps"
proof (cases ss rule: rev_cases)
  case Nil
  with assms show ?thesis by simp
next
  case (snoc ss' s)
  with assms(2) have c: "s \<noteq> []" "list_all (\<lambda>c. c \<notin> seps) s"
    by (simp_all add: component_def)
  then have "last s \<in> set s" by simp
  with c(2) have "last s \<notin> seps" by (simp add: list_all_iff)
  with c(1) snoc show ?thesis by simp
qed

lemma body_first:
  assumes "ss \<noteq> []"
  shows "\<exists>r. concat (map (\<lambda>s. bs # s) ss) = bs # r"
  using assms by (cases ss) simp_all

text \<open>
  Behind a drive \<open>D\<close> that \<open>splitdrive\<close> splits off before a separator, both the
  library's split and the wrapped split are undone by the join.
\<close>

lemma roundtrip_behind_drive:
  assumes sd: "\<And>r. nt_splitdrive (D @ bs # r) = (D, bs # r)"
      and D: "D \<noteq> []" "last D = CHR '':''"
      and segs: "list_all component segs" "segs \<noteq> [] \<longrightarrow> \<not> drive_like (last segs)"
      and P: "P = D @ (if segs = [] then [bs] else concat (map (\<lambda>s. bs # s) segs))"
  shows "nt_join (fst (nt_split P)) (snd (nt_split P)) = P
       \<and> nt_join (fst (lfnsplit nt_split P)) (snd (lfnsplit nt_split P)) = P"
proof (cases segs rule: rev_cases)
  case Nil
  have P1: "P = D @ [bs]" using P Nil by simp
  have s: "nt_split P = (D @ [bs], [])"
    unfolding P1 by (rule nt_split_at_root [OF sd]) simp
  have e: "\<not> endswith (D @ [bs]) '':''"
    by (simp add: endswith_colon)
  have j: "nt_join (D @ [bs]) [] = D @ [bs]"
    using nt_join_component [OF sd [of "[]"] D, of "[]"] by (simp add: drive_like_def)
  show ?thesis
    unfolding lfnsplit_def Let_def s fst_conv snd_conv using j e by (simp add: P1)
next
  case (snoc ss s)
  with segs have cs: "list_all component ss" and s: "s \<noteq> []" "list_all (\<lambda>c. c \<notin> seps) s"
      and nd: "\<not> drive_like s"
    by (simp_all add: component_def)
  show ?thesis
  proof (cases "ss = []")
    case True
    have P1: "P = D @ bs # s" using P snoc True by simp
    have sp: "nt_split P = (D @ [bs], s)"
      unfolding P1 by (rule nt_split_at_root [OF sd s(2)])
    have e: "\<not> endswith (D @ [bs]) '':''"
      by (simp add: endswith_colon)
    have j: "nt_join (D @ [bs]) s = D @ bs # s"
      using nt_join_component [OF sd [of "[]"] D s(2) nd] by simp
    show ?thesis
      unfolding lfnsplit_def Let_def sp fst_conv snd_conv using j e by (simp add: P1)
  next
    case False
    let ?B = "concat (map (\<lambda>s. bs # s) ss)"
    from body_last [OF False cs] have B: "?B \<noteq> []" "last ?B \<notin> seps" by simp_all
    from body_first [OF False] obtain r where r: "?B = bs # r" by blast
    have P1: "P = D @ ?B @ bs # s" using P snoc by simp
    have "nt_splitdrive (D @ bs # (r @ bs # s)) = (D, bs # (r @ bs # s))"
      by (rule sd)
    then have d1: "nt_splitdrive P = (D, ?B @ bs # s)"
      by (simp add: P1 r)
    have sp: "nt_split P = (D @ ?B, s)"
      by (rule nt_split_behind_drive [OF d1 s(2) B])
    have "nt_splitdrive (D @ bs # r) = (D, bs # r)"
      by (rule sd)
    then have d2: "nt_splitdrive (D @ ?B) = (D, ?B)"
      by (simp add: r)
    have "nt_splitdrive (D @ bs # (r @ [bs])) = (D, bs # (r @ [bs]))"
      by (rule sd)
    then have d3: "nt_splitdrive ((D @ ?B) @ [bs]) = (D, ?B @ [bs])"
      by (simp add: r)
    have j2: "nt_join (D @ ?B) s = P"
      using nt_join_component [OF d2 D s(2) nd] B by (simp add: P1)
    have j3: "nt_join ((D @ ?B) @ [bs]) s = P"
      using nt_join_component [OF d3 D s(2) nd] by (simp add: P1)
    show ?thesis
      unfolding lfnsplit_def Let_def sp fst_conv snd_conv using j2 j3 by simp
  qed
qed

lemma drive_forms:
  assumes "d \<notin> seps"
  shows "nt_splitdrive ([d, CHR '':''] @ bs # r) = ([d, CHR '':''], bs # r)"
    and "nt_splitdrive ((uncprefix @ [d, CHR '':'']) @ bs # r) = (uncprefix @ [d, CHR '':''], bs # r)"
  using nt_splitdrive_bare [of d "bs # r"] nt_splitdrive_extended [OF assms, of r] by simp_all

text \<open>
  Claim C6 does not hold as stated. With the library of Python 3 the unwrapped pair does
  not violate the law at a drive root: split returns the bare root \<open>C:\\<close> and the
  extended-form root each as the head with an empty tail, and join gives the root back.
  And the law does not hold for every drive-absolute path, wrapped or not: the component
  \<open>a:b\<close> begins like a drive, so joining it to the head \<open>C:\\<close> gives \<open>a:b\<close> alone.
\<close>

theorem wrapsplit_claim_counterexample:
  "nt_split (drive_path CHR ''C'' []) = (drive_path CHR ''C'' [], [])
   \<and> nt_join (drive_path CHR ''C'' []) [] = drive_path CHR ''C'' []
   \<and> nt_split (uncprefix @ drive_path CHR ''C'' []) = (uncprefix @ drive_path CHR ''C'' [], [])
   \<and> nt_join (uncprefix @ drive_path CHR ''C'' []) [] = uncprefix @ drive_path CHR ''C'' []
   \<and> list_all component [''a:b'']
   \<and> wrapsplit nt_split (drive_path CHR ''C'' [''a:b'']) = (drive_path CHR ''C'' [], ''a:b'')
   \<and> nt_join (drive_path CHR ''C'' []) ''a:b'' = ''a:b''
   \<and> drive_path CHR ''C'' [''a:b''] \<noteq> ''a:b''"
  by (simp add: drive_path_def uncprefix_def nt_split_def nt_join_def nt_splitdrive_def py_find_def
      py_upper_def upper_char_def py_lower_def lower_char_def seps_def component_def
      wrapsplit_def lfnsplit_def endswith_colon Let_def)

text \<open>
  Claim C6, amended. Let \<open>P\<close> be a normalized drive-absolute path, in bare or in extended
  form and the drive root included, whose last component does not begin like a drive.
  Joining the two parts that the wrapped split returns gives \<open>P\<close> back. The head that the
  wrapped split returns is the library's head with a separator added when it ends with a
  colon. Joining the two parts of the library's own split gives \<open>P\<close> back as well.
\<close>

theorem wrapsplit_join_roundtrip:
  assumes "list_all component segs"
      and "segs \<noteq> [] \<longrightarrow> \<not> drive_like (last segs)"
      and "d \<notin> seps"
      and "P = drive_path d segs \<or> P = uncprefix @ drive_path d segs"
  shows "nt_join (fst (wrapsplit nt_split P)) (snd (wrapsplit nt_split P)) = P
       \<and> fst (wrapsplit nt_split P) = addmissingbackslash (fst (nt_split P))
       \<and> nt_join (fst (nt_split P)) (snd (nt_split P)) = P"
proof -
  let ?body = "if segs = [] then [bs] else concat (map (\<lambda>s. bs # s) segs)"
  have h: "fst (wrapsplit nt_split P) = addmissingbackslash (fst (nt_split P))"
    by (simp add: wrapsplit_def lfnsplit_head)
  from assms(4) have "nt_join (fst (nt_split P)) (snd (nt_split P)) = P
       \<and> nt_join (fst (lfnsplit nt_split P)) (snd (lfnsplit nt_split P)) = P"
  proof
    assume "P = drive_path d segs"
    then have P: "P = [d, CHR '':''] @ ?body"
      by (simp add: drive_path_def)
    show ?thesis
      by (rule roundtrip_behind_drive [OF drive_forms(1) [OF assms(3)] _ _ assms(1,2) P]) simp_all
  next
    assume "P = uncprefix @ drive_path d segs"
    then have P: "P = (uncprefix @ [d, CHR '':'']) @ ?body"
      by (simp add: drive_path_def)
    show ?thesis
      by (rule roundtrip_behind_drive [OF drive_forms(2) [OF assms(3)] _ _ assms(1,2) P]) simp_all
  qed
  with h show ?thesis by (simp add: wrapsplit_def)
qed

theorem wrapsplit_join_roundtrip_witness:
  "list_all component [''work'', ''a.txt'']
   \<and> \<not> drive_like (last [''work'', ''a.txt''])
   \<and> CHR ''C'' \<notin> seps
   \<and> nt_join (fst (wrapsplit nt_split (drive_path CHR ''C'' [''work'', ''a.txt''])))
         (snd (wrapsplit nt_split (drive_path CHR ''C'' [''work'', ''a.txt''])))
       = drive_path CHR ''C'' [''work'', ''a.txt'']
   \<and> nt_join (fst (wrapsplit nt_split (drive_path CHR ''C'' [])))
         (snd (wrapsplit nt_split (drive_path CHR ''C'' [])))
       = drive_path CHR ''C'' []
   \<and> nt_join (fst (wrapsplit nt_split (uncprefix @ drive_path CHR ''C'' [])))
         (snd (wrapsplit nt_split (uncprefix @ drive_path CHR ''C'' [])))
       = uncprefix @ drive_path CHR ''C'' []
   \<and> nt_join (fst (nt_split (uncprefix @ drive_path CHR ''C'' [''work'', ''a.txt''])))
         (snd (nt_split (uncprefix @ drive_path CHR ''C'' [''work'', ''a.txt''])))
       = uncprefix @ drive_path CHR ''C'' [''work'', ''a.txt'']"
proof -
  have c: "list_all component [''work'', ''a.txt'']" "list_all component []"
    by (simp_all add: component_def seps_def)
  have n: "[''work'', ''a.txt''] \<noteq> [] \<longrightarrow> \<not> drive_like (last [''work'', ''a.txt''])"
      "([] :: string list) \<noteq> [] \<longrightarrow> \<not> drive_like (last [])"
    by (simp_all add: drive_like_def)
  have d: "CHR ''C'' \<notin> seps"
    by (simp add: seps_def)
  have l: "\<not> drive_like (last [''work'', ''a.txt''])"
    by (simp add: drive_like_def)
  from c(1) l d
    wrapsplit_join_roundtrip [OF c(1) n(1) d, of "drive_path CHR ''C'' [''work'', ''a.txt'']"]
    wrapsplit_join_roundtrip [OF c(1) n(1) d, of "uncprefix @ drive_path CHR ''C'' [''work'', ''a.txt'']"]
    wrapsplit_join_roundtrip [OF c(2) n(2) d, of "drive_path CHR ''C'' []"]
    wrapsplit_join_roundtrip [OF c(2) n(2) d, of "uncprefix @ drive_path CHR ''C'' []"]
  show ?thesis by blast
qed

end
